theory Spec2Isabelle
  imports Complex_Main
begin

section \<open>Data model of \<open>idc_index/client.py\<close>\<close>

text \<open>
  The module keeps one pandas DataFrame per \<open>IDCClient\<close> object and derives a
  per-collection summary from it. A DataFrame is modelled column-wise, as pandas stores
  it: an association list from column names to the column's cells. A cell is a text, a
  number or the missing value. The numbers of \<open>series_size_MB\<close> are IEEE doubles
  in the source; they are modelled as reals, so the rounding of a sum is not part of the
  model.
\<close>

datatype cell = Str string | Num real | NaN

type_synonym table = "(string \<times> cell list) list"

text \<open>
  A DataFrame object carries an identity besides its contents: two frames with the same
  cells are still two objects. The code never changes a frame once it is shared, so an
  identity tag on the value is enough to tell an object from a copy of it.
\<close>

record frame =
  ident :: nat
  cols :: table

text \<open>
  Python exceptions. \<open>DuckDBError\<close> wraps whatever \<open>duckdb.query\<close> raises and
  \<open>PandasError\<close> whatever \<open>pd.read_csv\<close> raises; both carry the library's message.
  An \<open>assert\<close> statement raises \<open>AssertionError\<close> with its message (assertions are
  taken to be enabled); reading an attribute that was never assigned raises
  \<open>AttributeError\<close>, here with the attribute's name.
\<close>

datatype error =
    AssertionError string
  | AttributeError string
  | KeyError string
  | ValueError
  | TypeError
  | FileNotFoundError
  | URLError
  | DuckDBError string
  | PandasError string

text \<open>
  \<open>collection_summary\<close> is the result of \<open>groupby("collection_id").agg(...)\<close>: per
  collection id the unique \<open>Modality\<close> values and the sum of \<open>series_size_MB\<close>. It
  is modelled as a finite map from the group key; the order of its rows is not modelled.
\<close>

type_synonym summary = "cell \<Rightarrow> (cell list \<times> real) option"

text \<open>
  The path of the transfer executable: \<open>os.path.join(current_dir, name)\<close> for the
  bundled binary, or the bare command name that is looked up on the execution path.
\<close>

datatype path = InModuleDir string | Bare string

text \<open>
  An \<open>IDCClient\<close> object. Python attributes exist only once they are assigned, so
  each is optional: reading an attribute that is \<open>None\<close> here raises
  \<open>AttributeError\<close>. The class assigns \<open>data\<close>, \<open>collection_summary\<close> and
  \<open>s5cmd_path\<close>; it reads \<open>index\<close> (lines 49 and 139) but no line assigns it.
\<close>

record client =
  data :: "frame option"
  index :: "frame option"
  collection_summary :: "summary option"
  s5cmd_path :: "path option"

definition empty_client :: client where
  "empty_client = \<lparr>data = None, index = None, collection_summary = None, s5cmd_path = None\<rparr>"

text \<open>The values that reach a \<open>data\<close> or \<open>context\<close> parameter.\<close>

datatype pyval = DataFrame frame | Client client

text \<open>What a filter or query method returns: \<open>self\<close>, or a newly constructed client.\<close>

datatype ret = Self | New client

datatype level = DEBUG | WARNING | FATAL

text \<open>
  Everything outside the object that the methods read or change: the host platform, the
  files beside the module (name to contents), whether an \<open>s5cmd\<close> on the execution
  path can be started, what the release URL serves (\<open>None\<close>: unreachable), the URLs
  retrieved so far, the next free DataFrame identity and the log.
\<close>

record world =
  platform_system :: string
  module_files :: "string \<Rightarrow> string option"
  s5cmd_on_path :: bool
  remote_index :: "string option"
  retrieved :: "string list"
  next_frame :: nat
  log :: "(level \<times> string) list"

text \<open>
  The library calls whose results the module only passes on are parameters:
  \<open>duckdb.query(q).to_df()\<close> with the table bound to the name \<open>index\<close>,
  \<open>pd.read_csv(..., dtype=str)\<close> (every cell a text or missing) and Python's
  \<open>float\<close> on a text (\<open>None\<close> where it raises \<open>ValueError\<close>; texts that denote
  an infinity or a not-a-number are outside the model).
\<close>

type_synonym rawtable = "(string \<times> string option list) list"

record libs =
  duckdb_query :: "string \<Rightarrow> table \<Rightarrow> string + table"
  read_csv :: "string \<Rightarrow> string + rawtable"
  to_float :: "string \<Rightarrow> real option"

section \<open>pandas operations used by the module\<close>

definition column :: "table \<Rightarrow> string \<Rightarrow> error + cell list" where
  "column t c = (case map_of t c of None \<Rightarrow> Inl (KeyError c) | Some xs \<Rightarrow> Inr xs)"

text \<open>\<open>pd.Series.unique\<close>: the distinct values in order of first appearance.\<close>

definition unique :: "'a list \<Rightarrow> 'a list" where
  "unique xs = rev (remdups (rev xs))"

primrec is_Str :: "cell \<Rightarrow> bool" where
  "is_Str (Str s) = True"
| "is_Str (Num x) = False"
| "is_Str NaN = False"

text \<open>The \<open>"sum"\<close> aggregation skips missing values.\<close>

primrec num_of :: "cell \<Rightarrow> real" where
  "num_of (Str s) = 0"
| "num_of (Num x) = x"
| "num_of NaN = 0"

definition group_cells :: "cell list \<Rightarrow> cell list \<Rightarrow> cell \<Rightarrow> cell list" where
  "group_cells keys vals k = map snd (filter (\<lambda>kv. fst kv = k) (zip keys vals))"

text \<open>
  \<open>df.groupby("collection_id").agg({"Modality": pd.Series.unique, "series_size_MB": "sum"})\<close>.
  A missing column raises \<open>KeyError\<close>, here with the name of the first missing column
  and not with pandas' message; rows whose key is missing are dropped. The sum is
  modelled for numeric columns only: where the summed column holds text cells pandas
  concatenates them, which a summary with numeric totals cannot hold, and the model
  reports \<open>TypeError\<close> there. The sum is a sum of reals, without the rounding of
  doubles.
\<close>

definition groupby_agg :: "table \<Rightarrow> error + summary" where
  "groupby_agg t =
     (case column t ''collection_id'' of Inl e \<Rightarrow> Inl e | Inr keys \<Rightarrow>
     (case column t ''Modality'' of Inl e \<Rightarrow> Inl e | Inr mods \<Rightarrow>
     (case column t ''series_size_MB'' of Inl e \<Rightarrow> Inl e | Inr sizes \<Rightarrow>
        if list_ex is_Str sizes then Inl TypeError
        else Inr (\<lambda>k. if k \<in> set keys \<and> k \<noteq> NaN
                       then Some (unique (group_cells keys mods k),
                                  sum_list (map num_of (group_cells keys sizes k)))
                       else None))))"

text \<open>\<open>data.astype(str)\<close> on the result of \<open>read_csv\<close>: a missing cell prints as \<open>nan\<close>.\<close>

definition astype_str :: "rawtable \<Rightarrow> table" where
  "astype_str t =
     map (\<lambda>cx. (fst cx, map (\<lambda>x. case x of None \<Rightarrow> Str ''nan'' | Some s \<Rightarrow> Str s) (snd cx))) t"

text \<open>\<open>df.replace(a, b)\<close>: every cell that is exactly the text \<open>a\<close> becomes \<open>b\<close>.\<close>

definition replace_cells :: "string \<Rightarrow> string \<Rightarrow> table \<Rightarrow> table" where
  "replace_cells a b t =
     map (\<lambda>cx. (fst cx, map (\<lambda>x. if x = Str a then Str b else x) (snd cx))) t"

primrec cell_to_float :: "(string \<Rightarrow> real option) \<Rightarrow> cell \<Rightarrow> cell option" where
  "cell_to_float F (Str s) = map_option Num (F s)"
| "cell_to_float F (Num x) = Some (Num x)"
| "cell_to_float F NaN = Some NaN"

text \<open>\<open>series.astype(float)\<close>: \<open>None\<close> when some cell does not parse (\<open>ValueError\<close>).\<close>

primrec astype_float :: "(string \<Rightarrow> real option) \<Rightarrow> cell list \<Rightarrow> cell list option" where
  "astype_float F [] = Some []"
| "astype_float F (c # cs) =
     (case cell_to_float F c of None \<Rightarrow> None
      | Some v \<Rightarrow> (case astype_float F cs of None \<Rightarrow> None | Some vs \<Rightarrow> Some (v # vs)))"

text \<open>\<open>df[c] = xs\<close>: replaces the column when it exists, appends it otherwise.\<close>

primrec set_column :: "string \<Rightarrow> cell list \<Rightarrow> table \<Rightarrow> table" where
  "set_column c xs [] = [(c, xs)]"
| "set_column c xs (p # ps) = (if fst p = c then (c, xs) # ps else p # set_column c xs ps)"

definition new_frame :: "table \<Rightarrow> world \<Rightarrow> frame \<times> world" where
  "new_frame t w = (\<lparr>ident = next_frame w, cols = t\<rparr>, w\<lparr>next_frame := Suc (next_frame w)\<rparr>)"

definition logger :: "level \<Rightarrow> string \<Rightarrow> world \<Rightarrow> world" where
  "logger l m w = w\<lparr>log := log w @ [(l, m)]\<rparr>"

section \<open>The methods of \<open>IDCClient\<close>\<close>

subsection \<open>\<open>_setDataStore\<close> (lines 42 to 51)\<close>

text \<open>
  The assertion admits DataFrames only. The table is assigned to \<open>self.data\<close>; the
  summary is then computed from \<open>self.index\<close>.
\<close>

definition setDataStore :: "pyval \<Rightarrow> client \<Rightarrow> (error + unit) \<times> client" where
  "setDataStore d self =
     (case d of
        Client c \<Rightarrow> (Inl (AssertionError ''data must be a pandas dataframe''), self)
      | DataFrame f \<Rightarrow>
          (let self1 = self\<lparr>data := Some f\<rparr> in
           case index self1 of
             None \<Rightarrow> (Inl (AttributeError ''index''), self1)
           | Some i \<Rightarrow>
               (case groupby_agg (cols i) of
                  Inl e \<Rightarrow> (Inl e, self1)
                | Inr s \<Rightarrow> (Inr (), self1\<lparr>collection_summary := Some s\<rparr>))))"

subsection \<open>\<open>_get_s5cmd_path\<close> (lines 53 to 79)\<close>

definition s5cmd_name :: "string \<Rightarrow> string" where
  "s5cmd_name system =
     (if system = ''Windows'' then ''s5cmd.exe''
      else if system = ''Darwin'' then ''s5cmd''
      else ''s5cmd'')"

definition exists_file :: "world \<Rightarrow> string \<Rightarrow> bool" where
  "exists_file w name = (case module_files w name of None \<Rightarrow> False | Some x \<Rightarrow> True)"

definition get_s5cmd_path :: "world \<Rightarrow> (error + path) \<times> world" where
  "get_s5cmd_path w =
     (let name = s5cmd_name (platform_system w) in
      if exists_file w name then (Inr (InModuleDir name), w)
      else if s5cmd_on_path w then (Inr (Bare ''s5cmd''), w)
      else (Inl ValueError,
            logger FATAL
              ''s5cmd executable not found. Please install s5cmd from https://github.com/peak/s5cmd#installation''
              w))"

subsection \<open>\<open>reset\<close> (lines 81 to 117)\<close>

definition latest_idc_index_csv_url :: string where
  "latest_idc_index_csv_url =
     ''https://github.com/ImagingDataCommons/idc-index/releases/download/'' @ ''0.2.10'' @
     ''/idc_index.csv.zip''"

definition index_file :: string where
  "index_file = ''idc_index.csv.zip''"

text \<open>
  \<open>urllib.request.urlretrieve(url, file_path)\<close>: the request is recorded; the file is
  written when the URL is served.
\<close>

definition urlretrieve :: "string \<Rightarrow> string \<Rightarrow> world \<Rightarrow> (error + unit) \<times> world" where
  "urlretrieve url name w =
     (let w1 = w\<lparr>retrieved := retrieved w @ [url]\<rparr> in
      case remote_index w of
        None \<Rightarrow> (Inl URLError, w1)
      | Some content \<Rightarrow> (Inr (), w1\<lparr>module_files := (module_files w1)(name := Some content)\<rparr>))"

text \<open>
  Lines 93 to 109. The first warning is guarded by \<open>not not os.path.exists(file_path)\<close>,
  that is by the file being there.
\<close>

definition fetch_index :: "bool \<Rightarrow> world \<Rightarrow> (error + unit) \<times> world" where
  "fetch_index refresh w =
     (if \<not> exists_file w index_file \<or> refresh then
        (let w1 =
           (if exists_file w index_file then
              logger WARNING
                ''Index file not found. Downloading latest version of the index file. This will take a minute or so.''
                w
            else if refresh then
              logger WARNING
                ''Refreshing index file. Downloading latest version of the index file. This will take a minute or so.''
                w
            else w)
         in case urlretrieve latest_idc_index_csv_url index_file w1 of
              (Inl e, w2) \<Rightarrow> (Inl e, w2)
            | (Inr u, w2) \<Rightarrow> (Inr (), logger WARNING ''Index file downloaded.'' w2))
      else (Inr (), w))"

text \<open>
  Lines 112 to 114: read the file with every column as text, print every cell as text,
  empty the cells that read \<open>nan\<close>, and make \<open>series_size_MB\<close> a column of floats.
  The frames built on the way are dropped; the finished table takes one identity.
\<close>

definition format_data :: "libs \<Rightarrow> rawtable \<Rightarrow> error + table" where
  "format_data L r =
     (let t = replace_cells ''nan'' '''' (astype_str r) in
      case column t ''series_size_MB'' of
        Inl e \<Rightarrow> Inl e
      | Inr xs \<Rightarrow>
          (case astype_float (to_float L) xs of
             None \<Rightarrow> Inl ValueError
           | Some ys \<Rightarrow> Inr (set_column ''series_size_MB'' ys t)))"

definition load_index :: "libs \<Rightarrow> world \<Rightarrow> error + table" where
  "load_index L w =
     (case module_files w index_file of
        None \<Rightarrow> Inl FileNotFoundError
      | Some bytes \<Rightarrow>
          (case read_csv L bytes of
             Inl m \<Rightarrow> Inl (PandasError m)
           | Inr r \<Rightarrow> format_data L r))"

definition reset :: "libs \<Rightarrow> bool \<Rightarrow> client \<Rightarrow> world \<Rightarrow> (error + unit) \<times> client \<times> world" where
  "reset L refresh self w =
     (case fetch_index refresh w of
        (Inl e, w1) \<Rightarrow> (Inl e, self, w1)
      | (Inr u, w1) \<Rightarrow>
          (case load_index L w1 of
             Inl e \<Rightarrow> (Inl e, self, w1)
           | Inr t \<Rightarrow>
               (case new_frame t w1 of
                  (f, w2) \<Rightarrow>
                    (case setDataStore (DataFrame f) self of
                       (r, self1) \<Rightarrow> (r, self1, w2)))))"

subsection \<open>\<open>__init__\<close> (lines 26 to 38) and the constructor call\<close>

definition init :: "libs \<Rightarrow> pyval option \<Rightarrow> client \<Rightarrow> world \<Rightarrow> (error + unit) \<times> client \<times> world" where
  "init L d self w =
     (case (case d of
              None \<Rightarrow> reset L False self w
            | Some v \<Rightarrow> (case setDataStore v self of (r, self1) \<Rightarrow> (r, self1, w))) of
        (Inl e, self1, w1) \<Rightarrow> (Inl e, self1, w1)
      | (Inr u, self1, w1) \<Rightarrow>
          (case get_s5cmd_path w1 of
             (Inl e, w2) \<Rightarrow> (Inl e, self1, w2)
           | (Inr p, w2) \<Rightarrow>
               (Inr (), self1\<lparr>s5cmd_path := Some p\<rparr>,
                logger DEBUG ''Successfully read the index and located s5cmd.'' w2)))"

text \<open>\<open>IDCClient(data=d)\<close>: a new object with no attribute, then \<open>__init__\<close> on it.\<close>

definition IDCClient :: "libs \<Rightarrow> pyval option \<Rightarrow> world \<Rightarrow> (error + client) \<times> world" where
  "IDCClient L d w =
     (case init L d empty_client w of
        (Inl e, c, w1) \<Rightarrow> (Inl e, w1)
      | (Inr u, c, w1) \<Rightarrow> (Inr c, w1))"

subsection \<open>\<open>sql\<close> (lines 121 to 149)\<close>

text \<open>Lines 135 to 139: the assertion on \<open>context\<close> and the table bound to \<open>index\<close>.\<close>

definition context_index :: "pyval option \<Rightarrow> client \<Rightarrow> error + frame" where
  "context_index ctx self =
     (case ctx of
        Some (Client c) \<Rightarrow> Inl (AssertionError ''context if specified must be a pandas dataframe'')
      | Some (DataFrame f) \<Rightarrow> Inr f
      | None \<Rightarrow> (case index self of None \<Rightarrow> Inl (AttributeError ''index'') | Some f \<Rightarrow> Inr f))"

definition sql :: "libs \<Rightarrow> string \<Rightarrow> pyval option \<Rightarrow> bool \<Rightarrow> client \<Rightarrow> world \<Rightarrow>
    (error + ret) \<times> client \<times> world" where
  "sql L sql_query ctx in_place self w =
     (case context_index ctx self of
        Inl e \<Rightarrow> (Inl e, self, w)
      | Inr idx \<Rightarrow>
          (case duckdb_query L sql_query (cols idx) of
             Inl m \<Rightarrow> (Inl (DuckDBError m), self, w)
           | Inr t \<Rightarrow>
               (case new_frame t w of
                  (d, w1) \<Rightarrow>
                    if in_place then
                      (case setDataStore (DataFrame d) self of
                         (Inl e, self1) \<Rightarrow> (Inl e, self1, w1)
                       | (Inr u, self1) \<Rightarrow> (Inr Self, self1, w1))
                    else
                      (case IDCClient L (Some (DataFrame d)) w1 of
                         (Inl e, w2) \<Rightarrow> (Inl e, self, w2)
                       | (Inr c, w2) \<Rightarrow> (Inr (New c), self, w2)))))"

subsection \<open>\<open>get\<close> (lines 151 to 209)\<close>

definition is_not_None :: "'a option \<Rightarrow> bool" where
  "is_not_None x = (case x of None \<Rightarrow> False | Some v \<Rightarrow> True)"

definition base_query :: string where
  "base_query =
     [CHR 0x0A] @ replicate 12 (CHR '' '') @ ''SELECT'' @
     [CHR 0x0A] @ replicate 12 (CHR '' '') @ ''*'' @
     [CHR 0x0A] @ replicate 12 (CHR '' '') @ ''FROM'' @
     [CHR 0x0A] @ replicate 16 (CHR '' '') @ ''index'' @
     [CHR 0x0A] @ replicate 8 (CHR '' '')"

text \<open>The f-string \<open>column='value'\<close>: the value is spliced between two quote characters.\<close>

definition eq_clause :: "string \<Rightarrow> string \<Rightarrow> string" where
  "eq_clause col v = col @ ''='' @ [CHR 0x27] @ v @ [CHR 0x27]"

definition clause_of :: "string \<Rightarrow> string option \<Rightarrow> string list" where
  "clause_of col x = (case x of None \<Rightarrow> [] | Some v \<Rightarrow> [eq_clause col v])"

fun join :: "string \<Rightarrow> string list \<Rightarrow> string" where
  "join sep [] = []"
| "join sep [x] = x"
| "join sep (x # y # ys) = x @ sep @ join sep (y # ys)"

definition where_clause :: "string option \<Rightarrow> string option \<Rightarrow> string option \<Rightarrow> string option \<Rightarrow>
    string list" where
  "where_clause collectionId patientId studyInstanceUID seriesInstanceUID =
     clause_of ''collection_id'' collectionId @ clause_of ''PatientID'' patientId @
     clause_of ''StudyInstanceUID'' studyInstanceUID @
     clause_of ''SeriesInstanceUID'' seriesInstanceUID"

definition get_query :: "string option \<Rightarrow> string option \<Rightarrow> string option \<Rightarrow> string option \<Rightarrow>
    string" where
  "get_query collectionId patientId studyInstanceUID seriesInstanceUID =
     (let wc = where_clause collectionId patientId studyInstanceUID seriesInstanceUID in
      if length wc > 0 then base_query @ ''WHERE '' @ join '' AND '' wc else base_query)"

definition ret_value :: "ret \<Rightarrow> client \<Rightarrow> pyval" where
  "ret_value r self = (case r of Self \<Rightarrow> Client self | New c \<Rightarrow> Client c)"

text \<open>
  Line 202 calls \<open>self.sql(query)\<close> with the default \<open>in_place=False\<close>; what it
  returns is passed on as \<open>data\<close> in lines 205 to 209.
\<close>

definition get :: "libs \<Rightarrow> string option \<Rightarrow> string option \<Rightarrow> string option \<Rightarrow> string option \<Rightarrow>
    bool \<Rightarrow> client \<Rightarrow> world \<Rightarrow> (error + ret) \<times> client \<times> world" where
  "get L collectionId patientId studyInstanceUID seriesInstanceUID in_place self w =
     (if is_not_None collectionId \<or> is_not_None patientId \<or> is_not_None studyInstanceUID
         \<or> is_not_None seriesInstanceUID
      then
        (case sql L (get_query collectionId patientId studyInstanceUID seriesInstanceUID)
                None False self w of
           (Inl e, self1, w1) \<Rightarrow> (Inl e, self1, w1)
         | (Inr subset', self1, w1) \<Rightarrow>
             if in_place then
               (case setDataStore (ret_value subset' self1) self1 of
                  (Inl e, self2) \<Rightarrow> (Inl e, self2, w1)
                | (Inr u, self2) \<Rightarrow> (Inr Self, self2, w1))
             else
               (case IDCClient L (Some (ret_value subset' self1)) w1 of
                  (Inl e, w2) \<Rightarrow> (Inl e, self1, w2)
                | (Inr c, w2) \<Rightarrow> (Inr (New c), self1, w2)))
      else (Inl (AssertionError ''at least one argument must be specified''), self, w))"

subsection \<open>\<open>raw\<close> (lines 226 to 229)\<close>

definition raw :: "client \<Rightarrow> (error + frame) \<times> client" where
  "raw self =
     (case data self of
        None \<Rightarrow> (Inl (AttributeError ''data''), self)
      | Some f \<Rightarrow> (Inr f, self))"

text \<open>
  \<open>download\<close> (lines 213 to 224) has the body \<open>pass\<close> and \<open>summarize\<close> (line 231)
  has no body; neither is modelled.
\<close>

section \<open>Concrete tables, libraries and hosts\<close>

text \<open>
  The table of the specification's scenario (a \<open>Modality\<close> column added), the rows of
  its collection \<open>A\<close>, and a one-row table with other contents.
\<close>

definition scenario :: table where
  "scenario =
     [(''collection_id'', [Str ''A'', Str ''A'', Str ''B'']),
      (''PatientID'', [Str ''P1'', Str ''P2'', Str ''P3'']),
      (''Modality'', [Str ''CT'', Str ''MR'', Str ''CT'']),
      (''series_size_MB'', [Num 10, Num 5, Num 20])]"

definition scenario_A :: table where
  "scenario_A =
     [(''collection_id'', [Str ''A'', Str ''A'']),
      (''PatientID'', [Str ''P1'', Str ''P2'']),
      (''Modality'', [Str ''CT'', Str ''MR'']),
      (''series_size_MB'', [Num 10, Num 5])]"

definition other_table :: table where
  "other_table =
     [(''collection_id'', [Str ''A'']),
      (''PatientID'', [Str ''P9'']),
      (''Modality'', [Str ''PT'']),
      (''series_size_MB'', [Num 1])]"

definition scenario_frame :: frame where
  "scenario_frame = \<lparr>ident = 0, cols = scenario\<rparr>"

definition other_frame :: frame where
  "other_frame = \<lparr>ident = 1, cols = other_table\<rparr>"

text \<open>
  A query engine that answers three query texts as a real one does on the scenario
  table and rejects every other text, a CSV reader that knows two archives, and a
  float parser for the numerals in them.
\<close>

definition test_engine :: "string \<Rightarrow> table \<Rightarrow> string + table" where
  "test_engine q t =
     (if q = ''SELECT * FROM index'' then Inr t
      else if q = ''SELECT Modality FROM index'' then Inr (filter (\<lambda>cx. fst cx = ''Modality'') t)
      else if q = get_query (Some ''A'') None None None \<and> t = scenario then Inr scenario_A
      else Inl ''Parser Error'')"

definition old_archive :: rawtable where
  "old_archive =
     [(''collection_id'', [Some ''A'']),
      (''Modality'', [None]),
      (''series_size_MB'', [Some ''10.0''])]"

definition new_archive :: rawtable where
  "new_archive =
     [(''collection_id'', [Some ''A'', Some ''B'']),
      (''Modality'', [Some ''CT'', Some ''nan'']),
      (''series_size_MB'', [Some ''10.0'', Some ''20.0''])]"

definition test_read_csv :: "string \<Rightarrow> string + rawtable" where
  "test_read_csv bytes =
     (if bytes = ''old'' then Inr old_archive
      else if bytes = ''new'' then Inr new_archive
      else Inl ''EmptyDataError'')"

definition test_float :: "string \<Rightarrow> real option" where
  "test_float s =
     (if s = ''10.0'' then Some 10 else if s = ''20.0'' then Some 20 else None)"

definition test_libs :: libs where
  "test_libs = \<lparr>duckdb_query = test_engine, read_csv = test_read_csv, to_float = test_float\<rparr>"

text \<open>
  A Linux host with no file beside the module and no \<open>s5cmd\<close> on the execution path,
  and the same host with a cached archive.
\<close>

definition bare_host :: world where
  "bare_host =
     \<lparr>platform_system = ''Linux'', module_files = (\<lambda>n. None), s5cmd_on_path = False,
      remote_index = Some ''new'', retrieved = [], next_frame = 2, log = []\<rparr>"

definition cached_host :: world where
  "cached_host = bare_host\<lparr>module_files := (\<lambda>n. if n = index_file then Some ''old'' else None)\<rparr>"

text \<open>
  Two client objects: one holding the scenario table in \<open>data\<close> only, and one whose
  \<open>index\<close> attribute has been assigned from outside the class as well.
\<close>

definition data_client :: client where
  "data_client = empty_client\<lparr>data := Some scenario_frame\<rparr>"

definition indexed_client :: client where
  "indexed_client =
     empty_client\<lparr>data := Some scenario_frame, index := Some scenario_frame,
       s5cmd_path := Some (Bare ''s5cmd'')\<rparr>"

text \<open>
  The summary that belongs to the scenario table, and a client that holds the table and
  this summary as a matching pair.
\<close>

definition scenario_summary :: summary where
  "scenario_summary k =
     (if k = Str ''A'' then Some ([Str ''CT'', Str ''MR''], 15)
      else if k = Str ''B'' then Some ([Str ''CT''], 20)
      else None)"

definition paired_client :: client where
  "paired_client = data_client\<lparr>collection_summary := Some scenario_summary\<rparr>"

text \<open>The tables that \<open>reset\<close> builds from the two archives.\<close>

definition new_table :: table where
  "new_table =
     [(''collection_id'', [Str ''A'', Str ''B'']),
      (''Modality'', [Str ''CT'', Str []]),
      (''series_size_MB'', [Num 10, Num 20])]"

definition old_table :: table where
  "old_table =
     [(''collection_id'', [Str ''A'']),
      (''Modality'', [Str []]),
      (''series_size_MB'', [Num 10])]"

text \<open>What \<open>SELECT Modality FROM index\<close> gives on the scenario table.\<close>

definition modality_table :: table where
  "modality_table = [(''Modality'', [Str ''CT'', Str ''MR'', Str ''CT''])]"

section \<open>Basic facts about the methods\<close>

lemma setDataStore_no_index:
  "index self = None \<Longrightarrow>
   setDataStore (DataFrame f) self = (Inl (AttributeError ''index''), self\<lparr>data := Some f\<rparr>)"
  by (simp add: setDataStore_def)

lemma setDataStore_Client:
  "setDataStore (Client c) self = (Inl (AssertionError ''data must be a pandas dataframe''), self)"
  by (simp add: setDataStore_def)

lemma setDataStore_data:
  "data (snd (setDataStore (DataFrame f) self)) = Some f"
  by (simp add: setDataStore_def Let_def split: option.splits sum.splits)

text \<open>The constructor works on an object without attributes, so its data-store step fails.\<close>

lemma IDCClient_DataFrame:
  "IDCClient L (Some (DataFrame f)) w = (Inl (AttributeError ''index''), w)"
  by (simp add: IDCClient_def init_def setDataStore_def empty_client_def)

lemma IDCClient_Client:
  "IDCClient L (Some (Client c)) w = (Inl (AssertionError ''data must be a pandas dataframe''), w)"
  by (simp add: IDCClient_def init_def setDataStore_def)

lemma sql_copy_self: "fst (snd (sql L q ctx False self w)) = self"
  by (simp add: sql_def new_frame_def IDCClient_DataFrame split: sum.splits prod.splits)

lemma sql_copy_isl: "isl (fst (sql L q ctx False self w))"
  by (simp add: sql_def new_frame_def IDCClient_DataFrame split: sum.splits prod.splits)

lemma groupby_agg_scenario:
  "groupby_agg scenario = Inr s \<Longrightarrow> s (Str ''A'') = Some ([Str ''CT'', Str ''MR''], 15)"
  by (auto simp add: groupby_agg_def scenario_def column_def unique_def group_cells_def)

lemma groupby_agg_other:
  "groupby_agg other_table = Inr s \<Longrightarrow> s (Str ''A'') = Some ([Str ''PT''], 1)"
  by (auto simp add: groupby_agg_def other_table_def column_def unique_def group_cells_def)

lemma groupby_agg_other_ok: "\<exists>s. groupby_agg other_table = Inr s"
  by (simp add: groupby_agg_def other_table_def column_def)

lemma get_no_argument:
  "get L None None None None ip self w =
     (Inl (AssertionError ''at least one argument must be specified''), self, w)"
  by (simp add: get_def is_not_None_def)

text \<open>The query text that \<open>get\<close> builds is none of the other texts the test engine knows.\<close>

lemma get_query_A_neq:
  "get_query (Some ''A'') None None None \<noteq> ''SELECT * FROM index''"
  "get_query (Some ''A'') None None None \<noteq> ''SELECT Modality FROM index''"
  "''SELEC'' \<noteq> get_query (Some ''A'') None None None"
  by (simp_all add: get_query_def where_clause_def clause_of_def base_query_def)

lemma sql_copy_None_error:
  "fst (sql L q None False self w) = Inl (AttributeError ''index'')
   \<or> (\<exists>m. fst (sql L q None False self w) = Inl (DuckDBError m))"
  by (simp add: sql_def context_index_def new_frame_def IDCClient_DataFrame
      split: sum.splits prod.splits option.splits)

lemma get_isl: "isl (fst (get L a b c d ip self w))"
  using sql_copy_isl [of L "get_query a b c d" None self w]
  by (auto simp add: get_def split: sum.splits prod.splits)


lemma get_self: "fst (snd (get L a b c d ip self w)) = self"
  using sql_copy_isl [of L "get_query a b c d" None self w]
    sql_copy_self [of L "get_query a b c d" None self w]
  by (auto simp add: get_def split: sum.splits prod.splits)

text \<open>The errors of a call with \<open>in_place=False\<close>.\<close>

lemma sql_copy_error:
  "(\<exists>m. fst (sql L q ctx False self w) = Inl (AssertionError m))
   \<or> (\<exists>m. fst (sql L q ctx False self w) = Inl (AttributeError m))
   \<or> (\<exists>m. fst (sql L q ctx False self w) = Inl (DuckDBError m))"
  by (simp add: sql_def context_index_def new_frame_def IDCClient_DataFrame
      split: sum.splits prod.splits option.splits pyval.splits)



lemma get_error:
  "(\<exists>m. fst (get L a b c d ip self w) = Inl (AssertionError m))
   \<or> (\<exists>m. fst (get L a b c d ip self w) = Inl (AttributeError m))
   \<or> (\<exists>m. fst (get L a b c d ip self w) = Inl (DuckDBError m))"
proof (cases "is_not_None a \<or> is_not_None b \<or> is_not_None c \<or> is_not_None d")
  case True
  have "fst (get L a b c d ip self w) = fst (sql L (get_query a b c d) None False self w)"
    using True sql_copy_isl [of L "get_query a b c d" None self w]
    by (auto simp add: get_def split: sum.splits prod.splits)
  then show ?thesis
    using sql_copy_error [of L "get_query a b c d" None self w] by simp
next
  case False
  then show ?thesis by (simp add: get_def)
qed

subsection \<open>The table built by \<open>reset\<close>\<close>

lemma map_of_set_column:
  "map_of (set_column c ys t) c' = (if c' = c then Some ys else map_of t c')"
  by (induction t) auto

lemma names_set_column:
  "map_of t c = Some xs \<Longrightarrow> map fst (set_column c ys t) = map fst t"
  by (induction t) (auto split: if_splits)

lemma map_of_cells:
  "map_of (map (\<lambda>cx. (fst cx, f (snd cx))) t) c = map_option f (map_of t c)"
  by (induction t) auto

lemma replaced_cells:
  "replace_cells ''nan'' '''' (astype_str r) =
     map (\<lambda>cx. (fst cx,
            map (\<lambda>x. case x of None \<Rightarrow> Str '''' | Some s \<Rightarrow> if s = ''nan'' then Str '''' else Str s)
              (snd cx))) r"
  by (auto simp add: replace_cells_def astype_str_def split: option.splits)

lemma map_of_replaced:
  "map_of (replace_cells ''nan'' '''' (astype_str r)) c =
     map_option
       (map (\<lambda>x. case x of None \<Rightarrow> Str '''' | Some s \<Rightarrow> if s = ''nan'' then Str '''' else Str s))
       (map_of r c)"
  unfolding replaced_cells by (rule map_of_cells)

lemma names_replaced: "map fst (replace_cells a b (astype_str r)) = map fst r"
  by (simp add: replace_cells_def astype_str_def comp_def)

lemma astype_float_texts:
  "astype_float F
     (map (\<lambda>x. case x of None \<Rightarrow> Str '''' | Some s \<Rightarrow> if s = ''nan'' then Str '''' else Str s) xs)
     = Some ys \<Longrightarrow>
   list_all2
     (\<lambda>x y. \<exists>v. F (case x of None \<Rightarrow> '''' | Some s \<Rightarrow> if s = ''nan'' then '''' else s) = Some v
              \<and> y = Num v) xs ys"
proof (induction xs arbitrary: ys)
  case Nil
  then show ?case by simp
next
  case (Cons x xs)
  then show ?case
    by (cases x) (auto split: option.splits if_splits)
qed

lemma format_data_normalises:
  assumes "format_data L r = Inr t"
  shows "map fst t = map fst r"
    and "c \<noteq> ''series_size_MB'' \<Longrightarrow>
         map_of t c =
           map_option
             (map (\<lambda>x. case x of None \<Rightarrow> Str '''' | Some s \<Rightarrow> if s = ''nan'' then Str '''' else Str s))
             (map_of r c)"
    and "\<exists>xs ys. map_of r ''series_size_MB'' = Some xs \<and> map_of t ''series_size_MB'' = Some ys
           \<and> list_all2
               (\<lambda>x y. \<exists>v. to_float L (case x of None \<Rightarrow> '''' | Some s \<Rightarrow> if s = ''nan'' then '''' else s)
                            = Some v \<and> y = Num v) xs ys"
proof -
  let ?t0 = "replace_cells ''nan'' '''' (astype_str r)"
  from assms obtain xs0 ys where
    col: "map_of ?t0 ''series_size_MB'' = Some xs0"
    and fl: "astype_float (to_float L) xs0 = Some ys"
    and t: "t = set_column ''series_size_MB'' ys ?t0"
    by (auto simp add: format_data_def column_def Let_def split: option.splits sum.splits)
  show "map fst t = map fst r"
    using col t by (simp add: names_set_column names_replaced)
  show "c \<noteq> ''series_size_MB'' \<Longrightarrow>
         map_of t c =
           map_option
             (map (\<lambda>x. case x of None \<Rightarrow> Str '''' | Some s \<Rightarrow> if s = ''nan'' then Str '''' else Str s))
             (map_of r c)"
    using t by (simp add: map_of_set_column map_of_replaced)
  from col obtain xs where xs: "map_of r ''series_size_MB'' = Some xs"
    and xs0: "xs0 = map (\<lambda>x. case x of None \<Rightarrow> Str '''' | Some s \<Rightarrow> if s = ''nan'' then Str '''' else Str s) xs"
    by (auto simp add: map_of_replaced)
  have "list_all2
               (\<lambda>x y. \<exists>v. to_float L (case x of None \<Rightarrow> '''' | Some s \<Rightarrow> if s = ''nan'' then '''' else s)
                            = Some v \<and> y = Num v) xs ys"
    using fl xs0 astype_float_texts by blast
  then show "\<exists>xs ys. map_of r ''series_size_MB'' = Some xs \<and> map_of t ''series_size_MB'' = Some ys
           \<and> list_all2
               (\<lambda>x y. \<exists>v. to_float L (case x of None \<Rightarrow> '''' | Some s \<Rightarrow> if s = ''nan'' then '''' else s)
                            = Some v \<and> y = Num v) xs ys"
    using xs t by (simp add: map_of_set_column)
qed

lemma format_new: "format_data test_libs new_archive = Inr new_table"
  by (simp add: format_data_def new_archive_def new_table_def replace_cells_def astype_str_def
      column_def test_libs_def test_float_def)

lemma format_old: "format_data test_libs old_archive = Inr old_table"
  by (simp add: format_data_def old_archive_def old_table_def replace_cells_def astype_str_def
      column_def test_libs_def test_float_def)

subsection \<open>The download decision of \<open>reset\<close>\<close>

lemma fetch_index_cached:
  "module_files w index_file = Some old \<Longrightarrow> fetch_index False w = (Inr (), w)"
  by (simp add: fetch_index_def exists_file_def)

lemma fetch_index_download:
  assumes "refresh \<or> module_files w index_file = None" and "remote_index w = Some content"
  shows "\<exists>w'. fetch_index refresh w = (Inr (), w')
           \<and> retrieved w' = retrieved w @ [latest_idc_index_csv_url]
           \<and> module_files w' index_file = Some content
           \<and> next_frame w' = next_frame w"
  using assms
  by (auto simp add: fetch_index_def exists_file_def urlretrieve_def logger_def Let_def
      split: option.splits)

lemma fetch_index_result:
  assumes "if refresh \<or> module_files w index_file = None
           then remote_index w = Some content else module_files w index_file = Some content"
  shows "\<exists>w'. fetch_index refresh w = (Inr (), w')
           \<and> retrieved w' =
               (if refresh \<or> module_files w index_file = None
                then retrieved w @ [latest_idc_index_csv_url] else retrieved w)
           \<and> module_files w' index_file = Some content
           \<and> next_frame w' = next_frame w"
proof (cases "refresh \<or> module_files w index_file = None")
  case True
  then show ?thesis using assms fetch_index_download [of refresh w content] by auto
next
  case False
  then show ?thesis using assms fetch_index_cached [of w content] by auto
qed

section \<open>The claims\<close>

subsection \<open>C1: the summary after \<open>_setDataStore\<close>\<close>

text \<open>
  C1 says that after \<open>_setDataStore(T)\<close> the collection summary is recomputed from
  \<open>T\<close>: per collection id of \<open>T\<close> the sum of \<open>series_size_MB\<close> and the unique
  \<open>Modality\<close> values of its rows. The code assigns \<open>T\<close> to \<open>self.data\<close> and computes
  the summary from \<open>self.index\<close>, which no line assigns. On a new object, and so in
  every constructor call, the method raises \<open>AttributeError\<close> after the assignment and
  no summary exists. On an object whose \<open>index\<close> holds another table the summary is
  that table's: for the scenario table as \<open>T\<close> the total of collection \<open>A\<close> is 1,
  not 15.
\<close>

theorem setDataStore_summary_not_from_argument:
  "setDataStore (DataFrame f) (self\<lparr>index := None\<rparr>) =
     (Inl (AttributeError ''index''), self\<lparr>index := None, data := Some f\<rparr>)
   \<and> IDCClient L (Some (DataFrame f)) w = (Inl (AttributeError ''index''), w)
   \<and> setDataStore (DataFrame scenario_frame) empty_client =
       (Inl (AttributeError ''index''), empty_client\<lparr>data := Some scenario_frame\<rparr>)
   \<and> collection_summary (snd (setDataStore (DataFrame scenario_frame) empty_client)) = None
   \<and> IDCClient test_libs (Some (DataFrame scenario_frame)) bare_host =
       (Inl (AttributeError ''index''), bare_host)
   \<and> fst (setDataStore (DataFrame scenario_frame) (empty_client\<lparr>index := Some other_frame\<rparr>)) = Inr ()
   \<and> map_option (\<lambda>s. s (Str ''A''))
       (collection_summary
         (snd (setDataStore (DataFrame scenario_frame) (empty_client\<lparr>index := Some other_frame\<rparr>))))
       = Some (Some ([Str ''PT''], 1))"
proof -
  obtain s where s: "groupby_agg other_table = Inr s"
    using groupby_agg_other_ok by blast
  have a: "s (Str ''A'') = Some ([Str ''PT''], 1)"
    using s by (rule groupby_agg_other)
  have g: "setDataStore (DataFrame f) (self\<lparr>index := None\<rparr>) =
     (Inl (AttributeError ''index''), self\<lparr>index := None, data := Some f\<rparr>)"
    by (simp add: setDataStore_def)
  show ?thesis
    by (simp add: g)
      (simp add: setDataStore_def empty_client_def IDCClient_DataFrame other_frame_def s a)
qed

subsection \<open>C2: what \<open>get\<close> returns\<close>

text \<open>
  C2 says that \<open>get\<close> with at least one filter returns a client whose table holds
  exactly the rows that match every supplied filter. The code never returns from
  \<open>get\<close>: line 202 runs \<open>self.sql(query)\<close>, which reads \<open>self.index\<close> and, when
  the query has run, builds the result with \<open>IDCClient(data=...)\<close>, whose
  \<open>_setDataStore\<close> raises \<open>AttributeError\<close> on the new object. On the scenario table
  with collection \<open>A\<close> asked for, the engine delivers the two matching rows and the call
  still raises.
\<close>

theorem get_never_returns:
  "isl (fst (get L collectionId patientId studyInstanceUID seriesInstanceUID in_place self w))
   \<and> get test_libs (Some ''A'') None None None True indexed_client bare_host =
       (Inl (AttributeError ''index''), indexed_client, bare_host\<lparr>next_frame := 3\<rparr>)"
proof -
  have "get test_libs (Some ''A'') None None None True indexed_client bare_host =
       (Inl (AttributeError ''index''), indexed_client, bare_host\<lparr>next_frame := 3\<rparr>)"
    by (simp add: get_def is_not_None_def sql_def context_index_def indexed_client_def
        empty_client_def test_libs_def test_engine_def get_query_A_neq
        scenario_frame_def new_frame_def IDCClient_DataFrame bare_host_def)
  then show ?thesis
    using get_isl by blast
qed

subsection \<open>C3: calls with \<open>in_place=False\<close>\<close>



subsection \<open>C4: the argument check of \<open>get\<close>\<close>

text \<open>
  C4 as stated says that \<open>get\<close> fails with the argument error whenever each of the
  four filters is empty or absent. The guard of lines 167 to 172 tests \<open>is not None\<close>:
  an empty text passes it. With \<open>collectionId\<close> the empty text and the other three
  absent, the call gets past the guard and fails later with another error.
\<close>

theorem get_empty_text_passes_guard:
  "get test_libs (Some '''') None None None False data_client bare_host =
     (Inl (AttributeError ''index''), data_client, bare_host)
   \<and> fst (get test_libs (Some '''') None None None False data_client bare_host)
       \<noteq> Inl (AssertionError ''at least one argument must be specified'')"
  by (simp add: get_def is_not_None_def sql_def context_index_def data_client_def
      empty_client_def)

text \<open>
  C4 as amended: when all four filter arguments are absent (\<open>None\<close>), \<open>get\<close> fails
  with the assertion error \<open>at least one argument must be specified\<close> and changes
  nothing; when at least one of them is supplied, be it the empty text, the call does
  not fail with that error.
\<close>

theorem get_requires_an_argument:
  "get L None None None None in_place self w =
     (Inl (AssertionError ''at least one argument must be specified''), self, w)
   \<and> (is_not_None collectionId \<or> is_not_None patientId \<or> is_not_None studyInstanceUID
        \<or> is_not_None seriesInstanceUID \<longrightarrow>
        fst (get L collectionId patientId studyInstanceUID seriesInstanceUID in_place self w)
          \<noteq> Inl (AssertionError ''at least one argument must be specified''))"
proof (intro conjI impI)
  show "get L None None None None in_place self w =
     (Inl (AssertionError ''at least one argument must be specified''), self, w)"
    by (rule get_no_argument)
next
  let ?q = "get_query collectionId patientId studyInstanceUID seriesInstanceUID"
  assume some: "is_not_None collectionId \<or> is_not_None patientId
    \<or> is_not_None studyInstanceUID \<or> is_not_None seriesInstanceUID"
  have isl: "isl (fst (sql L ?q None False self w))"
    by (rule sql_copy_isl)
  have "fst (get L collectionId patientId studyInstanceUID seriesInstanceUID in_place self w)
      = fst (sql L ?q None False self w)"
    using some isl by (auto simp add: get_def split: sum.splits prod.splits)
  then show "fst (get L collectionId patientId studyInstanceUID seriesInstanceUID in_place self w)
          \<noteq> Inl (AssertionError ''at least one argument must be specified'')"
    using sql_copy_None_error [of L ?q self w] by auto
qed

theorem get_requires_an_argument_witness:
  "is_not_None (Some '''')
   \<and> fst (get test_libs (Some '''') None None None True data_client bare_host)
       \<noteq> Inl (AssertionError ''at least one argument must be specified'')
   \<and> get test_libs None None None None True data_client bare_host =
       (Inl (AssertionError ''at least one argument must be specified''), data_client, bare_host)"
  using get_requires_an_argument [of test_libs True data_client bare_host "Some ''''" None None None]
  by (simp add: is_not_None_def)

subsection \<open>C5: a failing in-place call\<close>

text \<open>
  C5 as stated says that an in-place query or filter call that fails leaves the
  handle's table and summary as they were. \<open>_setDataStore\<close> assigns the table before
  it computes the summary and nothing undoes the assignment when the computation
  raises. On a client that holds the scenario table with its summary, an in-place
  \<open>SELECT Modality FROM index\<close> over that table fails, and afterwards the client holds
  the one-column result together with the scenario's summary. The result has no
  \<open>collection_id\<close> column, so no summary can be computed for it, from whichever
  attribute the table is read.
\<close>

theorem sql_in_place_failure_replaces_table:
  "sql test_libs ''SELECT Modality FROM index'' (Some (DataFrame scenario_frame)) True
     paired_client bare_host =
     (Inl (AttributeError ''index''),
      paired_client\<lparr>data := Some \<lparr>ident = 2, cols = modality_table\<rparr>\<rparr>,
      bare_host\<lparr>next_frame := 3\<rparr>)
   \<and> data paired_client = Some scenario_frame
   \<and> Some \<lparr>ident = 2, cols = modality_table\<rparr> \<noteq> Some scenario_frame
   \<and> groupby_agg modality_table = Inl (KeyError ''collection_id'')
   \<and> map_option (\<lambda>s. s (Str ''A''))
       (collection_summary (paired_client\<lparr>data := Some \<lparr>ident = 2, cols = modality_table\<rparr>\<rparr>))
       = Some (Some ([Str ''CT'', Str ''MR''], 15))"
  by (simp add: sql_def context_index_def test_libs_def test_engine_def new_frame_def
      setDataStore_def paired_client_def data_client_def empty_client_def bare_host_def
      scenario_frame_def scenario_summary_def scenario_def modality_table_def
      groupby_agg_def column_def)

text \<open>
  C5 as amended: every in-place filter call (\<open>get\<close>) that fails, and every in-place
  query call (\<open>sql\<close>) that fails before \<open>_setDataStore\<close> is entered, leaves every
  attribute of the handle, its table and its summary among them, as it was (for \<open>get\<close>
  this is shown whatever the outcome of the call). For \<open>sql\<close> the
  failures before \<open>_setDataStore\<close> are those in the assertion on \<open>context\<close> and in
  the read of the handle's \<open>index\<close> (the two ways in which no table is bound to
  \<open>index\<close>) and those of the query engine; they leave everything outside the handle
  as it was, too. Nothing is said about an in-place \<open>sql\<close> call that fails inside
  \<open>_setDataStore\<close>.
\<close>

theorem in_place_failure_before_store:
  "(context_index ctx self = Inl e \<longrightarrow> sql L sql_query ctx True self w = (Inl e, self, w))
   \<and> (context_index ctx self = Inr idx \<and> duckdb_query L sql_query (cols idx) = Inl m \<longrightarrow>
        sql L sql_query ctx True self w = (Inl (DuckDBError m), self, w))
   \<and> fst (snd (get L collectionId patientId studyInstanceUID seriesInstanceUID True self w)) = self"
  by (simp add: sql_def get_self)

theorem in_place_failure_before_store_witness:
  "context_index None paired_client = Inl (AttributeError ''index'')
   \<and> sql test_libs ''SELECT * FROM index'' None True paired_client bare_host =
       (Inl (AttributeError ''index''), paired_client, bare_host)
   \<and> context_index (Some (DataFrame scenario_frame)) paired_client = Inr scenario_frame
   \<and> duckdb_query test_libs ''SELEC'' (cols scenario_frame) = Inl ''Parser Error''
   \<and> sql test_libs ''SELEC'' (Some (DataFrame scenario_frame)) True paired_client bare_host =
       (Inl (DuckDBError ''Parser Error''), paired_client, bare_host)
   \<and> get test_libs (Some ''A'') None None None True paired_client bare_host =
       (Inl (AttributeError ''index''), paired_client, bare_host)
   \<and> fst (snd (get test_libs (Some ''A'') None None None True paired_client bare_host))
       = paired_client"
proof -
  have a: "context_index None paired_client = Inl (AttributeError ''index'')"
    by (simp add: context_index_def paired_client_def data_client_def empty_client_def)
  have b: "context_index (Some (DataFrame scenario_frame)) paired_client = Inr scenario_frame"
    by (simp add: context_index_def)
  have c: "duckdb_query test_libs ''SELEC'' (cols scenario_frame) = Inl ''Parser Error''"
    by (simp add: test_libs_def test_engine_def get_query_A_neq)
  have g: "get test_libs (Some ''A'') None None None True paired_client bare_host =
       (Inl (AttributeError ''index''), paired_client, bare_host)"
    by (simp add: get_def is_not_None_def sql_def a)
  show ?thesis
    using a b c g
      in_place_failure_before_store
        [where ctx = None and self = paired_client and e = "AttributeError ''index''"
          and L = test_libs and sql_query = "''SELECT * FROM index''" and w = bare_host
          and collectionId = "Some ''A''" and patientId = None and studyInstanceUID = None
          and seriesInstanceUID = None]
      in_place_failure_before_store
        [where ctx = "Some (DataFrame scenario_frame)" and self = paired_client
          and idx = scenario_frame and L = test_libs and sql_query = "''SELEC''"
          and m = "''Parser Error''" and w = bare_host]
    by simp
qed

subsection \<open>C6: \<open>reset\<close>\<close>

text \<open>
  C6: \<open>reset(refresh=True)\<close> retrieves the archive from the release URL even when the
  cache file exists; \<open>reset(refresh=False)\<close> retrieves nothing when the cache file
  exists and retrieves the archive when it is absent. In each case the file then present
  is read, and when it parses the table handed to \<open>_setDataStore\<close> (and so assigned to
  \<open>self.data\<close>) has the archive's columns, every cell outside \<open>series_size_MB\<close> as
  text with a missing value (or the text \<open>nan\<close>) as the empty text, and every cell of
  \<open>series_size_MB\<close> as the float parsed from its text. \<open>content\<close> stands for the
  bytes of the file that is read: those the URL serves when a download happens, those of
  the cache otherwise.
\<close>

theorem reset_downloads_and_installs:
  assumes src: "if refresh \<or> module_files w index_file = None
           then remote_index w = Some content else module_files w index_file = Some content"
    and rd: "read_csv L content = Inr r"
    and fm: "format_data L r = Inr t"
  shows "(case reset L refresh self w of
           (res, self', w') \<Rightarrow>
             retrieved w' =
               (if refresh \<or> module_files w index_file = None
                then retrieved w @ [latest_idc_index_csv_url] else retrieved w)
             \<and> module_files w' index_file = Some content
             \<and> (res, self') = setDataStore (DataFrame \<lparr>ident = next_frame w, cols = t\<rparr>) self
             \<and> data self' = Some \<lparr>ident = next_frame w, cols = t\<rparr>)
         \<and> map fst t = map fst r
         \<and> (\<forall>c. c \<noteq> ''series_size_MB'' \<longrightarrow>
               map_of t c =
                 map_option
                   (map (\<lambda>x. case x of None \<Rightarrow> Str '''' | Some s \<Rightarrow> if s = ''nan'' then Str '''' else Str s))
                   (map_of r c))
         \<and> (\<exists>xs ys. map_of r ''series_size_MB'' = Some xs \<and> map_of t ''series_size_MB'' = Some ys
               \<and> list_all2
                   (\<lambda>x y. \<exists>v. to_float L (case x of None \<Rightarrow> '''' | Some s \<Rightarrow> if s = ''nan'' then '''' else s)
                                = Some v \<and> y = Num v) xs ys)"
proof -
  obtain w1 where f: "fetch_index refresh w = (Inr (), w1)"
    and r1: "retrieved w1 =
               (if refresh \<or> module_files w index_file = None
                then retrieved w @ [latest_idc_index_csv_url] else retrieved w)"
    and m1: "module_files w1 index_file = Some content"
    and n1: "next_frame w1 = next_frame w"
    using fetch_index_result [OF src] by blast
  have ld: "load_index L w1 = Inr t"
    using m1 rd fm by (simp add: load_index_def)
  have "reset L refresh self w =
          (fst (setDataStore (DataFrame \<lparr>ident = next_frame w, cols = t\<rparr>) self),
           snd (setDataStore (DataFrame \<lparr>ident = next_frame w, cols = t\<rparr>) self),
           w1\<lparr>next_frame := Suc (next_frame w1)\<rparr>)"
    using f ld n1 by (simp add: reset_def new_frame_def split: prod.splits)
  then have first: "(case reset L refresh self w of
           (res, self', w') \<Rightarrow>
             retrieved w' =
               (if refresh \<or> module_files w index_file = None
                then retrieved w @ [latest_idc_index_csv_url] else retrieved w)
             \<and> module_files w' index_file = Some content
             \<and> (res, self') = setDataStore (DataFrame \<lparr>ident = next_frame w, cols = t\<rparr>) self
             \<and> data self' = Some \<lparr>ident = next_frame w, cols = t\<rparr>)"
    using r1 m1 by (simp add: setDataStore_data)
  show ?thesis
    using first format_data_normalises [OF fm] by blast
qed

theorem reset_downloads_and_installs_witness:
  "module_files cached_host index_file = Some ''old''
   \<and> remote_index cached_host = Some ''new''
   \<and> module_files bare_host index_file = None
   \<and> remote_index bare_host = Some ''new''
   \<and> read_csv test_libs ''new'' = Inr new_archive
   \<and> read_csv test_libs ''old'' = Inr old_archive
   \<and> format_data test_libs new_archive = Inr new_table
   \<and> format_data test_libs old_archive = Inr old_table
   \<and> retrieved (snd (snd (reset test_libs True empty_client cached_host)))
       = [latest_idc_index_csv_url]
   \<and> data (fst (snd (reset test_libs True empty_client cached_host)))
       = Some \<lparr>ident = 2, cols = new_table\<rparr>
   \<and> retrieved (snd (snd (reset test_libs False empty_client cached_host))) = []
   \<and> data (fst (snd (reset test_libs False empty_client cached_host)))
       = Some \<lparr>ident = 2, cols = old_table\<rparr>
   \<and> retrieved (snd (snd (reset test_libs False empty_client bare_host)))
       = [latest_idc_index_csv_url]
   \<and> data (fst (snd (reset test_libs False empty_client bare_host)))
       = Some \<lparr>ident = 2, cols = new_table\<rparr>
   \<and> map_of new_table ''Modality'' = Some [Str ''CT'', Str []]"
proof -
  have c: "module_files cached_host index_file = Some ''old''"
    and rc: "remote_index cached_host = Some ''new''"
    and b: "module_files bare_host index_file = None"
    and rb: "remote_index bare_host = Some ''new''"
    by (simp_all add: cached_host_def bare_host_def)
  have n: "read_csv test_libs ''new'' = Inr new_archive"
    and ol: "read_csv test_libs ''old'' = Inr old_archive"
    by (simp_all add: test_libs_def test_read_csv_def)
  have s1: "if True \<or> module_files cached_host index_file = None
            then remote_index cached_host = Some ''new''
            else module_files cached_host index_file = Some ''new''"
    using rc by simp
  have s2: "if False \<or> module_files cached_host index_file = None
            then remote_index cached_host = Some ''old''
            else module_files cached_host index_file = Some ''old''"
    using c by simp
  have s3: "if False \<or> module_files bare_host index_file = None
            then remote_index bare_host = Some ''new''
            else module_files bare_host index_file = Some ''new''"
    using b rb by simp
  have nf: "next_frame cached_host = 2" "next_frame bare_host = 2"
    "retrieved cached_host = []" "retrieved bare_host = []"
    by (simp_all add: cached_host_def bare_host_def)
  show ?thesis
    using c rc b rb n ol format_new format_old nf
      reset_downloads_and_installs [OF s1 n format_new, of empty_client]
      reset_downloads_and_installs [OF s2 ol format_old, of empty_client]
      reset_downloads_and_installs [OF s3 n format_new, of empty_client]
    by (simp add: case_prod_beta new_table_def)
qed

subsection \<open>C7: a second filter narrows the first\<close>

text \<open>
  C7 says that the rows obtained by filtering on a collection id and then on a patient
  id are among the rows obtained by filtering on the collection id alone. On the code
  the first filter already yields no handle to filter further: on the scenario table
  \<open>get(collectionId="A")\<close> raises \<open>AttributeError\<close>, on a client whose \<open>index\<close>
  was assigned from outside (the engine has produced the rows by then) as on one that
  holds the table in \<open>data\<close> only.
\<close>

theorem get_scenario_filter_raises:
  "get test_libs (Some ''A'') None None None False indexed_client bare_host =
     (Inl (AttributeError ''index''), indexed_client, bare_host\<lparr>next_frame := 3\<rparr>)
   \<and> get test_libs (Some ''A'') None None None False data_client bare_host =
     (Inl (AttributeError ''index''), data_client, bare_host)"
  by (simp add: get_def is_not_None_def sql_def context_index_def indexed_client_def
      data_client_def empty_client_def test_libs_def test_engine_def get_query_A_neq
      scenario_frame_def new_frame_def IDCClient_DataFrame bare_host_def)

subsection \<open>C8: what \<open>_setDataStore\<close> validates\<close>

text \<open>
  C8 as stated says that \<open>_setDataStore\<close> checks the required columns before it
  assigns the table, so that a table lacking one is rejected and not installed. The code
  has no such check: a DataFrame without any column is assigned to \<open>self.data\<close>.
\<close>

theorem setDataStore_installs_table_without_columns:
  "column [] ''collection_id'' = Inl (KeyError ''collection_id'')
   \<and> data (snd (setDataStore (DataFrame \<lparr>ident = 0, cols = []\<rparr>) empty_client))
       = Some \<lparr>ident = 0, cols = []\<rparr>"
  by (simp add: column_def setDataStore_def empty_client_def)

text \<open>
  C8 as amended: \<open>_setDataStore\<close> checks only that its argument is a DataFrame. An
  argument that is not one is rejected with the assertion error and the object is left
  as it was. For every DataFrame, whatever its columns, the object's \<open>data\<close>
  attribute holds that DataFrame after the call.
\<close>

theorem setDataStore_checks_type_only:
  "setDataStore (Client c) self =
     (Inl (AssertionError ''data must be a pandas dataframe''), self)
   \<and> data (snd (setDataStore (DataFrame f) self)) = Some f"
  by (simp add: setDataStore_Client setDataStore_data)

subsection \<open>C9: the transfer executable in calls with \<open>in_place=False\<close>\<close>

text \<open>
  C9 says that a call of \<open>sql\<close> or \<open>get\<close> with \<open>in_place=False\<close> builds its result
  through the constructor, which resolves the transfer executable, so that on a host
  with neither a bundled \<open>s5cmd\<close> nor one on the execution path the call raises
  \<open>ValueError\<close>. On such a host \<open>_get_s5cmd_path\<close> does raise \<open>ValueError\<close>, but
  the constructor never gets to it: \<open>__init__\<close> runs \<open>_setDataStore\<close> first, and
  that raises \<open>AttributeError\<close> on the new object. No call of \<open>sql\<close> or \<open>get\<close>
  with \<open>in_place=False\<close> raises \<open>ValueError\<close>, on any host; a query that the
  engine has answered ends in \<open>AttributeError\<close>.
\<close>

theorem copy_call_never_raises_ValueError:
  "fst (sql L sql_query ctx False self w) \<noteq> Inl ValueError
   \<and> fst (get L collectionId patientId studyInstanceUID seriesInstanceUID False self w)
       \<noteq> Inl ValueError
   \<and> exists_file bare_host (s5cmd_name (platform_system bare_host)) = False
   \<and> s5cmd_on_path bare_host = False
   \<and> fst (get_s5cmd_path bare_host) = Inl ValueError
   \<and> sql test_libs ''SELECT * FROM index'' (Some (DataFrame scenario_frame)) False data_client bare_host =
       (Inl (AttributeError ''index''), data_client, bare_host\<lparr>next_frame := 3\<rparr>)
   \<and> get test_libs (Some ''A'') None None None False indexed_client bare_host =
       (Inl (AttributeError ''index''), indexed_client, bare_host\<lparr>next_frame := 3\<rparr>)"
proof -
  have s: "fst (sql L sql_query ctx False self w) \<noteq> Inl ValueError"
    using sql_copy_error [of L sql_query ctx self w] by auto
  have g: "fst (get L collectionId patientId studyInstanceUID seriesInstanceUID False self w)
       \<noteq> Inl ValueError"
    using get_error [of L collectionId patientId studyInstanceUID seriesInstanceUID False self w]
    by auto
  have h: "exists_file bare_host (s5cmd_name (platform_system bare_host)) = False
     \<and> s5cmd_on_path bare_host = False \<and> fst (get_s5cmd_path bare_host) = Inl ValueError"
    by (simp add: get_s5cmd_path_def exists_file_def bare_host_def Let_def)
  have e1: "sql test_libs ''SELECT * FROM index'' (Some (DataFrame scenario_frame)) False data_client bare_host =
       (Inl (AttributeError ''index''), data_client, bare_host\<lparr>next_frame := 3\<rparr>)"
    by (simp add: sql_def context_index_def test_libs_def test_engine_def
        new_frame_def IDCClient_DataFrame bare_host_def)
  have e2: "get test_libs (Some ''A'') None None None False indexed_client bare_host =
       (Inl (AttributeError ''index''), indexed_client, bare_host\<lparr>next_frame := 3\<rparr>)"
    by (simp add: get_def is_not_None_def sql_def context_index_def indexed_client_def
        empty_client_def test_libs_def test_engine_def get_query_A_neq
        scenario_frame_def new_frame_def IDCClient_DataFrame bare_host_def)
  show ?thesis
    using s g h e1 e2 by simp
qed

subsection \<open>C10: \<open>raw\<close>\<close>

text \<open>
  C10: on an object whose \<open>data\<close> attribute is set, \<open>raw()\<close> returns that very
  DataFrame object (same identity, same contents) and leaves every attribute of the
  object as it was; the method has no access to anything else.
\<close>

theorem raw_returns_data_unchanged:
  "data self = Some f \<Longrightarrow> raw self = (Inr f, self)"
  by (simp add: raw_def)

theorem raw_returns_data_unchanged_witness:
  "data data_client = Some scenario_frame \<and> raw data_client = (Inr scenario_frame, data_client)"
proof -
  have h: "data data_client = Some scenario_frame"
    by (simp add: data_client_def)
  show ?thesis
    using h raw_returns_data_unchanged [OF h] by simp
qed

end
